theory Spec2Isabelle
  imports Main "HOL-Library.Sublist"
begin

section \<open>Calls issued to the remote API\<close>

text \<open>
  Both units of the provider are leaf consumers of an HTTP API client. Every operation
  below returns, next to its result, the list of requests it issued through the client,
  in the order of issue, so that statements such as "without querying the API" or
  "issues a revocation for the stored ID" are statements about a value.
\<close>

datatype api_request =
    GetOriginCertificate string
  | PostRevokeOriginCertificate string
  | GetZoneIDByName string
  | GetDNSRecords string

section \<open>Origin CA certificate resource\<close>

subsection \<open>Data\<close>

text \<open>
  \<^verbatim>\<open>cloudflare.OriginCACertificate\<close> of the API library, with the fields the resource reads.
  The two timestamps are \<^verbatim>\<open>time.Time\<close> values; the resource only compares one with the zero
  time and formats the other, so the type of times is left open (\<open>'t\<close>).
\<close>

record 't OriginCACertificate =
  ID :: string
  Certificate :: string
  Hostnames :: "string list"
  ExpiresOn :: 't
  RequestType :: string
  RevokedAt :: 't

text \<open>
  The two operations of package \<^verbatim>\<open>time\<close> the resource uses: the zero value
  \<^verbatim>\<open>time.Time{}\<close> and \<^verbatim>\<open>t.Format(time.RFC3339)\<close>.
\<close>

record 't time_pkg =
  zero_Time :: 't
  Format_RFC3339 :: "'t \<Rightarrow> string"

text \<open>
  The client, \<^verbatim>\<open>*cloudflare.API\<close>: each method returns a result or an error; an error is
  represented by its message (\<^verbatim>\<open>err.Error()\<close>), on the left of the sum.
\<close>

record 't API =
  OriginCertificate :: "string \<Rightarrow> string + 't OriginCACertificate"
  RevokeOriginCertificate :: "string \<Rightarrow> string + string"

text \<open>
  \<^verbatim>\<open>*schema.ResourceData\<close> for the schema declared by
  \<^verbatim>\<open>resourceCloudflareOriginCACertificate\<close>: the resource ID and one field per attribute.
  \<open>hostnames\<close> is a \<^verbatim>\<open>TypeSet\<close> of strings; \<open>requested_validity\<close> is optional.
\<close>

record ResourceData =
  Id' :: string
  certificate :: string
  csr :: string
  expires_on :: string
  hostnames :: "string set"
  request_type :: string
  requested_validity :: "int option"

text \<open>
  The errors the operations build with \<^verbatim>\<open>fmt.Errorf\<close>; each constructor keeps the arguments
  of the format string, so the wrapped message stays readable from the value.
  \<^item> \<^verbatim>\<open>"Error finding OriginCACertificate %q: %s", certID, err\<close>
  \<^item> \<^verbatim>\<open>"Error revoking Cloudflare OriginCACertificate: %s", err\<close>
\<close>

datatype resource_error =
    ErrorFindingOriginCACertificate string string
  | ErrorRevokingOriginCACertificate string

subsection \<open>\<^verbatim>\<open>strings.Contains\<close>\<close>

fun strings_Contains :: "string \<Rightarrow> string \<Rightarrow> bool" where
  "strings_Contains [] substr = (substr = [])"
| "strings_Contains (c # cs) substr =
     (if prefix substr (c # cs) then True else strings_Contains cs substr)"

subsection \<open>Read\<close>

text \<open>
  \<^verbatim>\<open>resourceCloudflareOriginCACertificateRead\<close>. The result is the list of requests issued,
  the resource data after the call and the returned error (\<open>None\<close> is \<^verbatim>\<open>nil\<close>).
  \<^verbatim>\<open>d.SetId("")\<close> is the update of \<open>Id'\<close>, \<^verbatim>\<open>d.Set(key, v)\<close> the update of the field;
  the loop over \<^verbatim>\<open>cert.Hostnames\<close> adds each name to a fresh set. Log lines are not modelled.
\<close>

definition not_found_message :: string where
  "not_found_message = ''Failed to read certificate from Database''"

definition resourceCloudflareOriginCACertificateRead ::
  "'t time_pkg \<Rightarrow> 't API \<Rightarrow> ResourceData \<Rightarrow>
     api_request list \<times> ResourceData \<times> resource_error option" where
  "resourceCloudflareOriginCACertificateRead tm client d =
     (let certID = Id' d in
      case OriginCertificate client certID of
        Inl err \<Rightarrow>
          if strings_Contains err not_found_message
          then ([GetOriginCertificate certID], d\<lparr>Id' := []\<rparr>, None)
          else ([GetOriginCertificate certID], d,
                Some (ErrorFindingOriginCACertificate certID err))
      | Inr cert \<Rightarrow>
          if RevokedAt cert \<noteq> zero_Time tm
          then ([GetOriginCertificate certID], d\<lparr>Id' := []\<rparr>, None)
          else ([GetOriginCertificate certID],
                d\<lparr>certificate := Certificate cert,
                  expires_on := Format_RFC3339 tm (ExpiresOn cert),
                  hostnames := set (Hostnames cert),
                  request_type := RequestType cert\<rparr>,
                None))"

subsection \<open>Delete\<close>

text \<open>\<^verbatim>\<open>resourceCloudflareOriginCACertificateDelete\<close>, with the same shape of result.\<close>

definition resourceCloudflareOriginCACertificateDelete ::
  "'t API \<Rightarrow> ResourceData \<Rightarrow> api_request list \<times> ResourceData \<times> resource_error option" where
  "resourceCloudflareOriginCACertificateDelete client d =
     (let certID = Id' d in
      case RevokeOriginCertificate client certID of
        Inl err \<Rightarrow>
          ([PostRevokeOriginCertificate certID], d, Some (ErrorRevokingOriginCACertificate err))
      | Inr _ \<Rightarrow>
          ([PostRevokeOriginCertificate certID], d\<lparr>Id' := []\<rparr>, None))"

subsection \<open>CSR validation\<close>

text \<open>
  \<^verbatim>\<open>pem.Block\<close> of \<^verbatim>\<open>encoding/pem\<close>. \<^verbatim>\<open>pem.Decode(data)\<close> returns the first PEM block found
  in the data, or \<^verbatim>\<open>nil\<close>, together with the rest of the input.
\<close>

record pem_Block =
  Type :: string
  Headers :: "(string \<times> string) list"
  Bytes :: string

text \<open>
  The two validation errors of \<^verbatim>\<open>validateCSR\<close>:
  \<^verbatim>\<open>"%q: invalid PEM data", k\<close> and \<^verbatim>\<open>"%q: %s", k, err.Error()\<close>.
\<close>

datatype validation_error =
    InvalidPEMData string
  | CSRParseError string string

text \<open>
  \<^verbatim>\<open>validateCSR\<close>. The standard library's \<^verbatim>\<open>pem.Decode\<close> and
  \<^verbatim>\<open>x509.ParseCertificateRequest\<close> are parameters: the first maps the input to the first
  block (if any) and the rest, the second maps the DER bytes to a request or to the message of
  its error. The result is the pair of the named results \<^verbatim>\<open>ws\<close> and \<^verbatim>\<open>errors\<close>; both start
  empty, \<^verbatim>\<open>ws\<close> is never assigned and \<^verbatim>\<open>errors\<close> is appended to at most once.
\<close>

definition validateCSR ::
  "(string \<Rightarrow> pem_Block option \<times> string) \<Rightarrow> (string \<Rightarrow> string + 'req) \<Rightarrow>
     string \<Rightarrow> string \<Rightarrow> string list \<times> validation_error list" where
  "validateCSR pem_Decode x509_ParseCertificateRequest v k =
     (case fst (pem_Decode v) of
        None \<Rightarrow> ([], [InvalidPEMData k])
      | Some block \<Rightarrow>
          (case x509_ParseCertificateRequest (Bytes block) of
             Inl err \<Rightarrow> ([], [CSRParseError k err])
           | Inr _ \<Rightarrow> ([], [])))"

section \<open>DNS record state migration\<close>

subsection \<open>Data\<close>

text \<open>
  The legacy state of a DNS record is a flat mapping of string keys to string values
  (\<^verbatim>\<open>map[string]string\<close> in the test table); the fields of interest are \<open>id\<close>, \<open>zone_id\<close>,
  \<open>domain\<close>, \<open>name\<close>, \<open>hostname\<close>, \<open>type\<close>, \<open>content\<close>, \<open>ttl\<close>, \<open>priority\<close>, \<open>proxied\<close>.
\<close>

type_synonym attributes = "string \<rightharpoonup> string"

text \<open>
  A remote DNS record as the list call returns it, with the fields the fixture
  \<^verbatim>\<open>dnsResponse\<close> carries and the migration compares. A fixture entry without a
  \<^verbatim>\<open>"type"\<close> has the empty type, one without a \<^verbatim>\<open>"priority"\<close> has priority 0 (the zero
  values of the decoded struct).
\<close>

record DNSRecord =
  r_id :: string
  r_type :: string
  r_name :: string
  r_content :: string
  r_proxied :: bool
  r_ttl :: int
  r_priority :: int

text \<open>
  Modelled from the spec: the part of the client the absent migration file calls, "an
  HTTP-based REST client exposing zone lookup, DNS record listing, \<dots> each returning
  structured results or an error": zone lookup by name (no match is \<open>None\<close>) and the list of
  a zone's records; either call may fail with the message of an upstream error.
\<close>

record dns_API =
  ZoneIDByName :: "string \<Rightarrow> string + string option"
  DNSRecords :: "string \<Rightarrow> string + DNSRecord list"

text \<open>
  Modelled from the spec: the failures of the absent migration file, "not-found (zone or
  record absent \<dots>), ambiguous-match error (migration found 0 or >1 candidates), upstream API
  error".
\<close>

datatype migrate_error =
    ZoneNotFound string
  | AmbiguousOrMissingRecord
  | UpstreamAPIError string

subsection \<open>Reading attributes as native values\<close>

text \<open>
  Modelled from the spec: the decimal digits, a helper of the integer reading below, which
  the absent migration file applies to \<open>ttl\<close> and \<open>priority\<close>.
\<close>

definition is_digit :: "char \<Rightarrow> bool" where
  "is_digit c = (48 \<le> (of_char c :: nat) \<and> (of_char c :: nat) \<le> 57)"

text \<open>
  Modelled from the spec: the value of a string of decimal digits, the second helper of the
  integer reading of the absent migration file; a string with any other character has none.
\<close>

fun decimal :: "nat \<Rightarrow> string \<Rightarrow> nat option" where
  "decimal acc [] = Some acc"
| "decimal acc (c # cs) =
     (if is_digit c then decimal (10 * acc + (of_char c - 48)) cs else None)"

text \<open>
  Modelled from the spec: the reading of a string attribute as an integer, which the absent
  migration file does before it compares \<open>ttl\<close> and \<open>priority\<close> ("comparing each as its native
  type (integer/boolean), not string identity"). The reading is the decimal one of the
  language's \<^verbatim>\<open>strconv.Atoi\<close>: an optional sign and at least one digit. The integers are
  unbounded; the TTLs and priorities of DNS records are far from the machine's range.
\<close>

definition int_of_attr :: "string \<Rightarrow> int option" where
  "int_of_attr a =
     (case a of
        [] \<Rightarrow> None
      | c # cs \<Rightarrow>
          if c = CHR ''-'' then (if cs = [] then None else map_option (\<lambda>n. - int n) (decimal 0 cs))
          else if c = CHR ''+'' then (if cs = [] then None else map_option int (decimal 0 cs))
          else map_option int (decimal 0 (c # cs)))"

text \<open>
  Modelled from the spec: the reading of a string attribute as a boolean, which the absent
  migration file does before it compares \<open>proxied\<close>. The accepted spellings are those of the
  language's \<^verbatim>\<open>strconv.ParseBool\<close>.
\<close>

definition bool_of_attr :: "string \<Rightarrow> bool option" where
  "bool_of_attr a =
     (if a \<in> set [''1'', ''t'', ''T'', ''TRUE'', ''true'', ''True''] then Some True
      else if a \<in> set [''0'', ''f'', ''F'', ''FALSE'', ''false'', ''False''] then Some False
      else None)"

subsection \<open>The migration\<close>

text \<open>
  Modelled from the spec: the schema version of legacy state ("legacy Terraform state (schema
  version 0)"); the absent migration file dispatches on it.
\<close>

definition legacy_schema_version :: int where
  "legacy_schema_version = 0"

text \<open>
  Modelled from the spec: the \<open>id\<close> of a snapshot, read from the attribute mapping of the
  absent migration's input; a snapshot without the key has the empty id.
\<close>

definition state_id :: "attributes \<Rightarrow> string" where
  "state_id s = (case s ''id'' of None \<Rightarrow> [] | Some i \<Rightarrow> i)"

text \<open>
  Modelled from the spec: the short-circuit test of the absent migration file, "a record
  already bearing a long-form identifier (32+ hex-like characters) is treated as
  current-format"; the testable property states it as "a 32+ character identifier".
\<close>

definition long_form_id :: "string \<Rightarrow> bool" where
  "long_form_id i = (32 \<le> length i)"

text \<open>
  Modelled from the spec: "stripping the leftmost label" of a host name, a helper of step 2 of
  the absent migration file: everything up to and including the first dot is dropped.
\<close>

definition strip_leftmost_label :: "string \<Rightarrow> string" where
  "strip_leftmost_label h = drop 1 (dropWhile (\<lambda>c. c \<noteq> CHR ''.'') h)"

text \<open>
  Modelled from the spec: step 2 of the absent migration file, "Derive the target domain from
  an explicit \<open>domain\<close>/\<open>zone_id\<close> attribute or by stripping the leftmost label from
  \<open>hostname\<close>/\<open>name\<close>"; the alternatives are tried in the order the sentence lists them.
\<close>

definition target_domain :: "attributes \<Rightarrow> string" where
  "target_domain s =
     (case s ''domain'' of
        Some d \<Rightarrow> d
      | None \<Rightarrow>
          (case s ''zone_id'' of
             Some z \<Rightarrow> z
           | None \<Rightarrow>
               (case s ''hostname'' of
                  Some h \<Rightarrow> strip_leftmost_label h
                | None \<Rightarrow>
                    (case s ''name'' of
                       Some n \<Rightarrow> strip_leftmost_label n
                     | None \<Rightarrow> []))))"

text \<open>
  Modelled from the spec: step 5 of the absent migration file, "Filter candidates by exact
  match on \<open>name\<close> (or \<open>hostname\<close>) and record \<open>type\<close>": the record's name is the snapshot's
  \<open>name\<close> or its \<open>hostname\<close>, and the record's type is the snapshot's \<open>type\<close>.
\<close>

definition name_type_match :: "attributes \<Rightarrow> DNSRecord \<Rightarrow> bool" where
  "name_type_match s r =
     ((s ''name'' = Some (r_name r) \<or> s ''hostname'' = Some (r_name r)) \<and>
      s ''type'' = Some (r_type r))"

text \<open>
  Modelled from the spec: the first discriminator of step 6 of the absent migration file,
  "\<open>ttl\<close> equality", on integers. A snapshot without the attribute has nothing to compare and
  keeps the record (the test entries without \<open>proxied\<close> or \<open>priority\<close> are expected to
  migrate); the same holds for the next two discriminators.
\<close>

definition ttl_match :: "attributes \<Rightarrow> DNSRecord \<Rightarrow> bool" where
  "ttl_match s r =
     (case s ''ttl'' of None \<Rightarrow> True | Some t \<Rightarrow> int_of_attr t = Some (r_ttl r))"

text \<open>
  Modelled from the spec: the second discriminator of step 6 of the absent migration file,
  "\<open>proxied\<close> equality", on booleans.
\<close>

definition proxied_match :: "attributes \<Rightarrow> DNSRecord \<Rightarrow> bool" where
  "proxied_match s r =
     (case s ''proxied'' of None \<Rightarrow> True | Some p \<Rightarrow> bool_of_attr p = Some (r_proxied r))"

text \<open>
  Modelled from the spec: the third discriminator of step 6 of the absent migration file,
  "for \<open>MX\<close>-type records, \<open>priority\<close> equality", on integers.
\<close>

definition priority_match :: "attributes \<Rightarrow> DNSRecord \<Rightarrow> bool" where
  "priority_match s r =
     (if r_type r = ''MX''
      then (case s ''priority'' of None \<Rightarrow> True | Some p \<Rightarrow> int_of_attr p = Some (r_priority r))
      else True)"

text \<open>
  Modelled from the spec: steps 5 and 6 of the absent migration file together, the candidates
  that remain after the name and type filter and the discriminators, applied in the order
  \<open>ttl\<close>, \<open>proxied\<close>, \<open>priority\<close>.
\<close>

definition candidates :: "attributes \<Rightarrow> DNSRecord list \<Rightarrow> DNSRecord list" where
  "candidates s records =
     filter (priority_match s)
       (filter (proxied_match s)
          (filter (ttl_match s)
             (filter (name_type_match s) records)))"

text \<open>
  Modelled from the spec: \<^verbatim>\<open>resourceCloudflareRecordMigrateState\<close>, which the test calls and
  whose file is absent. The steps are those of the spec's algorithm:
  \<^enum> "If version indicates already-current schema, return state unchanged";
  the edge case, "a record already bearing a long-form identifier \<dots> is \<dots> passed through
  unchanged without querying the API";
  \<^enum> the target domain;
  \<^enum> "Resolve the domain to a zone ID via a zone-lookup call; fail with a "zone not found"
  condition if no match";
  \<^enum> "List all DNS records for that zone";
  \<^enum> and 6. the candidates;
  \<^enum> "If exactly one candidate remains, adopt its \<open>id\<close> as the new state ID and return the
  updated snapshot. If zero or more than one candidate remains after all discriminators, fail
  with an "ambiguous or missing record" condition".
  An error of either call is surfaced as an upstream error. The result is the list of requests
  issued and either the error or the snapshot.
\<close>

definition resourceCloudflareRecordMigrateState ::
  "dns_API \<Rightarrow> int \<Rightarrow> attributes \<Rightarrow> api_request list \<times> (migrate_error + attributes)" where
  "resourceCloudflareRecordMigrateState client v s =
     (if v \<noteq> legacy_schema_version then ([], Inr s)
      else if long_form_id (state_id s) then ([], Inr s)
      else
        let domain = target_domain s in
        case ZoneIDByName client domain of
          Inl err \<Rightarrow> ([GetZoneIDByName domain], Inl (UpstreamAPIError err))
        | Inr None \<Rightarrow> ([GetZoneIDByName domain], Inl (ZoneNotFound domain))
        | Inr (Some zone) \<Rightarrow>
            (case DNSRecords client zone of
               Inl err \<Rightarrow>
                 ([GetZoneIDByName domain, GetDNSRecords zone], Inl (UpstreamAPIError err))
             | Inr records \<Rightarrow>
                 (case candidates s records of
                    [r] \<Rightarrow>
                      ([GetZoneIDByName domain, GetDNSRecords zone],
                       Inr (s(''id'' \<mapsto> r_id r)))
                  | _ \<Rightarrow>
                      ([GetZoneIDByName domain, GetDNSRecords zone],
                       Inl AmbiguousOrMissingRecord))))"

subsection \<open>The fixture of the migration test\<close>

text \<open>
  \<^verbatim>\<open>zoneResponse\<close> and \<^verbatim>\<open>dnsResponse\<close> of \<^verbatim>\<open>resource_cloudflare_record_migrate_test.go\<close>, as the
  client decodes them: the zones as pairs of id and name, the eight records in the order of
  the response.
\<close>

definition zoneResponse :: "(string \<times> string) list" where
  "zoneResponse = [(''1234567890'', ''hashicorptest.com'')]"

definition dnsResponse :: "DNSRecord list" where
  "dnsResponse =
    [\<lparr>r_id = ''7778f8766e583af8de0abfcd76c5dAAA'', r_type = ''A'',
      r_name = ''notthesub.hashicorptest.com'', r_content = ''10.0.2.5'',
      r_proxied = False, r_ttl = 120, r_priority = 0\<rparr>,
     \<lparr>r_id = ''5558f8766e583af8de0abfcd76c5dBBB'', r_type = ''A'',
      r_name = ''notthesub.hashicorptest.com'', r_content = ''10.0.2.5'',
      r_proxied = False, r_ttl = 121, r_priority = 0\<rparr>,
     \<lparr>r_id = ''2220a9593ab869199b65c89bddf72ddd'', r_type = ''A'',
      r_name = ''maybethesub.hashicorptest.com'', r_content = ''10.0.3.5'',
      r_proxied = False, r_ttl = 120, r_priority = 0\<rparr>,
     \<lparr>r_id = ''222ffe3f93a31231ad6b0c6d09185jjj'', r_type = ''A'',
      r_name = ''tftestingsubv616.hashicorptest.com'', r_content = ''52.39.212.111'',
      r_proxied = False, r_ttl = 1, r_priority = 0\<rparr>,
     \<lparr>r_id = ''888ffe3f93a31231ad6b0c6d09185eee'', r_type = ''A'',
      r_name = ''tftestingsubv616.hashicorptest.com'', r_content = ''52.39.212.111'',
      r_proxied = True, r_ttl = 1, r_priority = 0\<rparr>,
     \<lparr>r_id = ''98y6t9ba87e6ee3e6aeba8f3dc52c81b'', r_type = ''CNAME'',
      r_name = ''somecname.hashicorptest.com'',
      r_content = ''some.us-west-2.elb.amazonaws.com'',
      r_proxied = False, r_ttl = 120, r_priority = 0\<rparr>,
     \<lparr>r_id = ''12342092cbc4c391be33ce548713bba3'', r_type = ''MX'',
      r_name = ''hashicorptest.com'', r_content = ''some.registrar-servers.com'',
      r_proxied = False, r_ttl = 1, r_priority = 20\<rparr>,
     \<lparr>r_id = ''12345678901234567890123456789012'', r_type = [],
      r_name = ''hashicorptest.com'', r_content = ''1.2.3.4'',
      r_proxied = True, r_ttl = 122, r_priority = 0\<rparr>]"

text \<open>
  \<^verbatim>\<open>mockCloudflareEnv\<close> with \<^verbatim>\<open>mockEndpoints\<close>: the path \<^verbatim>\<open>/zones\<close> answers with
  \<^verbatim>\<open>zoneResponse\<close>, in which the client looks for the zone of the given name; the path
  \<^verbatim>\<open>/zones/1234567890/dns_records\<close> answers with \<^verbatim>\<open>dnsResponse\<close>; any other path answers
  with status 400.
\<close>

definition mockCloudflareEnv :: dns_API where
  "mockCloudflareEnv =
     \<lparr>ZoneIDByName = (\<lambda>name. Inr (map_option fst (find (\<lambda>z. snd z = name) zoneResponse))),
      DNSRecords = (\<lambda>zone. if zone = ''1234567890'' then Inr dnsResponse
                           else Inl ''HTTP status 400'')\<rparr>"

text \<open>
  The attribute mappings of the test table \<^verbatim>\<open>cases\<close>. In every entry the \<^verbatim>\<open>ID\<close> of the
  instance state and its attribute \<open>id\<close> are the same string.
\<close>

definition case_ttl_120 :: attributes where
  "case_ttl_120 = map_of
     [(''id'', ''123456''), (''name'', ''notthesub''),
      (''hostname'', ''notthesub.hashicorptest.com''), (''type'', ''A''),
      (''content'', ''10.0.2.5''), (''ttl'', ''120''), (''zone_id'', ''1234567890''),
      (''domain'', ''hashicorptest.com'')]"

definition case_ttl_121 :: attributes where
  "case_ttl_121 = map_of
     [(''id'', ''123456''), (''name'', ''notthesub''),
      (''hostname'', ''notthesub.hashicorptest.com''), (''type'', ''A''),
      (''content'', ''10.0.2.5''), (''ttl'', ''121''), (''zone_id'', ''1234567890''),
      (''domain'', ''hashicorptest.com'')]"

definition case_mx_priority :: attributes where
  "case_mx_priority = map_of
     [(''id'', ''123456''), (''name'', ''hashicorptest.com''), (''type'', ''MX''),
      (''content'', ''some.registrar-servers.com''), (''ttl'', ''1''), (''priority'', ''20''),
      (''zone_id'', ''1234567890''), (''domain'', ''hashicorptest.com'')]"

definition case_mx_priority_mismatch :: attributes where
  "case_mx_priority_mismatch = map_of
     [(''id'', ''123456''), (''type'', ''MX''), (''name'', ''hashicorptest.com''),
      (''content'', ''some.registrar-servers.com''), (''ttl'', ''1''), (''priority'', ''10''),
      (''zone_id'', ''1234567890''), (''domain'', ''hashicorptest.com'')]"

definition case_proxied :: attributes where
  "case_proxied = map_of
     [(''id'', ''123456''), (''name'', ''tftestingsubv616''),
      (''hostname'', ''tftestingsubv616.hashicorptest.com''), (''type'', ''A''),
      (''content'', ''52.39.212.111''), (''proxied'', ''true''), (''ttl'', ''1''),
      (''zone_id'', ''1234567890''), (''domain'', ''hashicorptest.com'')]"

definition case_not_proxied :: attributes where
  "case_not_proxied = map_of
     [(''id'', ''123456''), (''name'', ''tftestingsubv616''),
      (''hostname'', ''tftestingsubv616.hashicorptest.com''), (''type'', ''A''),
      (''content'', ''52.39.212.111''), (''proxied'', ''false''), (''ttl'', ''1''),
      (''zone_id'', ''1234567890''), (''domain'', ''hashicorptest.com'')]"

definition case_ttl_122_state_v0_with_v1_fields :: attributes where
  "case_ttl_122_state_v0_with_v1_fields = map_of
     [(''created_on'', ''2018-03-07T11:52:02.454564Z''), (''data.%'', ''0''),
      (''hostname'', ''hashicorptest.com''), (''id'', ''12345678901234567890123456789012''),
      (''metadata.%'', ''3''), (''metadata.auto_added'', ''false''),
      (''metadata.managed_by_apps'', ''false''),
      (''metadata.managed_by_argo_tunnel'', ''false''),
      (''modified_on'', ''2018-03-07T11:52:02.454564Z''), (''name'', ''hashicorptest.com''),
      (''priority'', ''0''), (''proxiable'', ''true''), (''proxied'', ''true''),
      (''ttl'', ''122''), (''type'', ''A''), (''value'', ''1.2.3.4''),
      (''zone_id'', ''1234567890'')]"

text \<open>
  A variant of the mock environment, not in the test file: the zone lists one more record
  with the name and type of the two \<open>tftestingsubv616\<close> records, proxied, but with another
  \<open>ttl\<close>. On this zone the choice between the two records needs the \<open>ttl\<close> discriminator
  before the \<open>proxied\<close> one.
\<close>

definition other_ttl :: DNSRecord where
  "other_ttl =
     \<lparr>r_id = ''333ffe3f93a31231ad6b0c6d09185kkk'', r_type = ''A'',
      r_name = ''tftestingsubv616.hashicorptest.com'', r_content = ''52.39.212.111'',
      r_proxied = True, r_ttl = 300, r_priority = 0\<rparr>"

definition mockCloudflareEnv_other_ttl :: dns_API where
  "mockCloudflareEnv_other_ttl =
     \<lparr>ZoneIDByName = (\<lambda>name. Inr (map_option fst (find (\<lambda>z. snd z = name) zoneResponse))),
      DNSRecords = (\<lambda>zone. if zone = ''1234567890'' then Inr (dnsResponse @ [other_ttl])
                           else Inl ''HTTP status 400'')\<rparr>"

text \<open>
  The body of the loop of \<^verbatim>\<open>TestCloudflareRecordMigrateState\<close>: the migration is run at
  \<^verbatim>\<open>StateVersion\<close> 0 against the mock environment, and the test looks at the error or at
  the ID of the returned state.
\<close>

definition migrated_ID :: "attributes \<Rightarrow> migrate_error + string" where
  "migrated_ID s =
     (case snd (resourceCloudflareRecordMigrateState mockCloudflareEnv 0 s) of
        Inl e \<Rightarrow> Inl e
      | Inr s' \<Rightarrow> Inr (state_id s'))"

subsection \<open>Sample values for the certificate resource\<close>

text \<open>
  Concrete values at which the statements below are instantiated. Times are given by their
  RFC 3339 text, and the zero time is the first instant of year 1. The sample client knows
  one live certificate, one revoked certificate and one certificate the database has lost,
  and fails on every other ID; the sample decoder and parser are finite tables of results
  of \<^verbatim>\<open>pem.Decode\<close> and \<^verbatim>\<open>x509.ParseCertificateRequest\<close>.
\<close>

definition sample_times :: "string time_pkg" where
  "sample_times = \<lparr>zero_Time = ''0001-01-01T00:00:00Z'', Format_RFC3339 = (\<lambda>t. t)\<rparr>"

definition sample_cert :: "string OriginCACertificate" where
  "sample_cert =
     \<lparr>ID = ''live'', Certificate = ''-----BEGIN CERTIFICATE-----'',
      Hostnames = [''example.com'', ''*.example.com'', ''example.com''],
      ExpiresOn = ''2034-01-01T05:20:00Z'', RequestType = ''origin-rsa'',
      RevokedAt = ''0001-01-01T00:00:00Z''\<rparr>"

definition sample_client :: "string API" where
  "sample_client =
     \<lparr>OriginCertificate =
        (\<lambda>i. if i = ''live'' then Inr sample_cert
             else if i = ''revoked''
               then Inr (sample_cert\<lparr>ID := ''revoked'', RevokedAt := ''2024-06-01T00:00:00Z''\<rparr>)
             else if i = ''lost''
               then Inl ''HTTP status 404: Failed to read certificate from Database (1101)''
             else Inl ''HTTP status 500: internal error''),
      RevokeOriginCertificate =
        (\<lambda>i. if i = ''live'' then Inr i else Inl ''HTTP status 500: internal error'')\<rparr>"

definition sample_data :: "string \<Rightarrow> ResourceData" where
  "sample_data i =
     \<lparr>Id' = i, certificate = ''old certificate'', csr = ''-----BEGIN CERTIFICATE REQUEST-----'',
      expires_on = ''2024-01-01T00:00:00Z'', hostnames = {''old.example.com''},
      request_type = ''origin-ecc'', requested_validity = Some 365\<rparr>"

definition sample_pem_Decode :: "string \<Rightarrow> pem_Block option \<times> string" where
  "sample_pem_Decode v =
     (if v = ''<request>'' then
        (Some \<lparr>Type = ''CERTIFICATE REQUEST'', Headers = [], Bytes = ''request DER''\<rparr>, [])
      else if v = ''<request> and more'' then
        (Some \<lparr>Type = ''CERTIFICATE REQUEST'', Headers = [], Bytes = ''request DER''\<rparr>,
         '' and more'')
      else if v = ''<certificate>'' then
        (Some \<lparr>Type = ''CERTIFICATE'', Headers = [], Bytes = ''certificate DER''\<rparr>, [])
      else (None, v))"

definition sample_ParseCertificateRequest :: "string \<Rightarrow> string + unit" where
  "sample_ParseCertificateRequest der =
     (if der = ''request DER'' then Inr () else Inl ''asn1: structure error'')"

section \<open>Properties of the certificate resource\<close>

lemma strings_Contains_iff: "strings_Contains s substr \<longleftrightarrow> sublist substr s"
  by (induction s) (auto simp: sublist_Cons_right)

subsection \<open>Read\<close>

lemma sample_lost_contains:
  "strings_Contains ''HTTP status 404: Failed to read certificate from Database (1101)''
     ''Failed to read certificate from Database''"
  by simp

lemma sample_other_contains:
  "\<not> strings_Contains ''HTTP status 500: internal error''
     ''Failed to read certificate from Database''"
  by simp

text \<open>
  C6. When the lookup of the certificate fails and the message of the error contains
  "Failed to read certificate from Database", Read clears the ID of the resource and returns
  no error; when the lookup fails with any other message, Read leaves the resource data as
  it is and returns the error that wraps the ID and the message.
\<close>

theorem Read_lookup_error:
  assumes "OriginCertificate client (Id' d) = Inl err"
  shows "(sublist ''Failed to read certificate from Database'' err \<longrightarrow>
            resourceCloudflareOriginCACertificateRead tm client d =
              ([GetOriginCertificate (Id' d)], d\<lparr>Id' := []\<rparr>, None)) \<and>
         (\<not> sublist ''Failed to read certificate from Database'' err \<longrightarrow>
            resourceCloudflareOriginCACertificateRead tm client d =
              ([GetOriginCertificate (Id' d)], d,
               Some (ErrorFindingOriginCACertificate (Id' d) err)))"
  using assms
  by (simp add: resourceCloudflareOriginCACertificateRead_def not_found_message_def
      strings_Contains_iff Let_def)

theorem Read_lookup_error_witness:
  "OriginCertificate sample_client (Id' (sample_data ''lost''))
     = Inl ''HTTP status 404: Failed to read certificate from Database (1101)'' \<and>
   sublist ''Failed to read certificate from Database''
     ''HTTP status 404: Failed to read certificate from Database (1101)'' \<and>
   resourceCloudflareOriginCACertificateRead sample_times sample_client (sample_data ''lost'')
     = ([GetOriginCertificate ''lost''], sample_data [], None) \<and>
   OriginCertificate sample_client (Id' (sample_data ''other''))
     = Inl ''HTTP status 500: internal error'' \<and>
   \<not> sublist ''Failed to read certificate from Database'' ''HTTP status 500: internal error'' \<and>
   resourceCloudflareOriginCACertificateRead sample_times sample_client (sample_data ''other'')
     = ([GetOriginCertificate ''other''], sample_data ''other'',
        Some (ErrorFindingOriginCACertificate ''other'' ''HTTP status 500: internal error''))"
proof -
  have l: "OriginCertificate sample_client (Id' (sample_data ''lost''))
     = Inl ''HTTP status 404: Failed to read certificate from Database (1101)''"
    by (simp add: sample_client_def sample_data_def)
  have o: "OriginCertificate sample_client (Id' (sample_data ''other''))
     = Inl ''HTTP status 500: internal error''"
    by (simp add: sample_client_def sample_data_def)
  have sl: "sublist ''Failed to read certificate from Database''
     ''HTTP status 404: Failed to read certificate from Database (1101)''"
    using sample_lost_contains unfolding strings_Contains_iff .
  have so: "\<not> sublist ''Failed to read certificate from Database''
     ''HTTP status 500: internal error''"
    using sample_other_contains unfolding strings_Contains_iff .
  have il: "Id' (sample_data ''lost'') = ''lost''" and io: "Id' (sample_data ''other'') = ''other''"
    and cl: "(sample_data ''lost'')\<lparr>Id' := []\<rparr> = sample_data []"
    by (simp_all add: sample_data_def)
  show ?thesis
    using l o sl so
      Read_lookup_error [OF l, of sample_times] Read_lookup_error [OF o, of sample_times]
    by (simp add: il io cl)
qed

text \<open>
  C7. When the lookup of the certificate succeeds: if the revocation timestamp of the
  certificate is not the zero time, Read clears the ID of the resource and returns no error;
  otherwise it stores the certificate text, the formatted expiry, the set of hostnames and the
  request type in the resource data and returns no error.
\<close>

theorem Read_lookup_success:
  assumes "OriginCertificate client (Id' d) = Inr cert"
  shows "(RevokedAt cert \<noteq> zero_Time tm \<longrightarrow>
            resourceCloudflareOriginCACertificateRead tm client d =
              ([GetOriginCertificate (Id' d)], d\<lparr>Id' := []\<rparr>, None)) \<and>
         (RevokedAt cert = zero_Time tm \<longrightarrow>
            resourceCloudflareOriginCACertificateRead tm client d =
              ([GetOriginCertificate (Id' d)],
               d\<lparr>certificate := Certificate cert,
                 expires_on := Format_RFC3339 tm (ExpiresOn cert),
                 hostnames := set (Hostnames cert),
                 request_type := RequestType cert\<rparr>,
               None))"
  using assms by (simp add: resourceCloudflareOriginCACertificateRead_def Let_def)

theorem Read_lookup_success_witness:
  "OriginCertificate sample_client (Id' (sample_data ''revoked''))
     = Inr (sample_cert\<lparr>ID := ''revoked'', RevokedAt := ''2024-06-01T00:00:00Z''\<rparr>) \<and>
   RevokedAt (sample_cert\<lparr>ID := ''revoked'', RevokedAt := ''2024-06-01T00:00:00Z''\<rparr>)
     \<noteq> zero_Time sample_times \<and>
   resourceCloudflareOriginCACertificateRead sample_times sample_client (sample_data ''revoked'')
     = ([GetOriginCertificate ''revoked''], sample_data [], None) \<and>
   OriginCertificate sample_client (Id' (sample_data ''live'')) = Inr sample_cert \<and>
   RevokedAt sample_cert = zero_Time sample_times \<and>
   resourceCloudflareOriginCACertificateRead sample_times sample_client (sample_data ''live'')
     = ([GetOriginCertificate ''live''],
        \<lparr>Id' = ''live'', certificate = ''-----BEGIN CERTIFICATE-----'',
         csr = ''-----BEGIN CERTIFICATE REQUEST-----'', expires_on = ''2034-01-01T05:20:00Z'',
         hostnames = {''example.com'', ''*.example.com''}, request_type = ''origin-rsa'',
         requested_validity = Some 365\<rparr>,
        None)"
proof -
  have r: "OriginCertificate sample_client (Id' (sample_data ''revoked''))
     = Inr (sample_cert\<lparr>ID := ''revoked'', RevokedAt := ''2024-06-01T00:00:00Z''\<rparr>)"
    by (simp add: sample_client_def sample_data_def)
  have l: "OriginCertificate sample_client (Id' (sample_data ''live'')) = Inr sample_cert"
    by (simp add: sample_client_def sample_data_def)
  have rz: "RevokedAt (sample_cert\<lparr>ID := ''revoked'', RevokedAt := ''2024-06-01T00:00:00Z''\<rparr>)
     \<noteq> zero_Time sample_times"
    by (simp add: sample_times_def)
  have lz: "RevokedAt sample_cert = zero_Time sample_times"
    by (simp add: sample_times_def sample_cert_def)
  have vals: "Id' (sample_data ''revoked'') = ''revoked''" "Id' (sample_data ''live'') = ''live''"
    "(sample_data ''revoked'')\<lparr>Id' := []\<rparr> = sample_data []"
    "(sample_data ''live'')\<lparr>certificate := Certificate sample_cert,
         expires_on := Format_RFC3339 sample_times (ExpiresOn sample_cert),
         hostnames := set (Hostnames sample_cert),
         request_type := RequestType sample_cert\<rparr> =
      \<lparr>Id' = ''live'', certificate = ''-----BEGIN CERTIFICATE-----'',
         csr = ''-----BEGIN CERTIFICATE REQUEST-----'', expires_on = ''2034-01-01T05:20:00Z'',
         hostnames = {''example.com'', ''*.example.com''}, request_type = ''origin-rsa'',
         requested_validity = Some 365\<rparr>"
    by (auto simp: sample_data_def sample_cert_def sample_times_def)
  show ?thesis
    using r l rz lz
      Read_lookup_success [OF r, of sample_times] Read_lookup_success [OF l, of sample_times]
    by (simp add: vals)
qed

text \<open>
  C9. Read never modifies \<open>csr\<close> or \<open>requested_validity\<close>: whatever the client answers,
  the resource data after Read differs from the data before it at most in the ID,
  \<open>certificate\<close>, \<open>expires_on\<close>, \<open>hostnames\<close> and \<open>request_type\<close>.
\<close>

theorem Read_frame:
  "csr (fst (snd (resourceCloudflareOriginCACertificateRead tm client d))) = csr d \<and>
   requested_validity (fst (snd (resourceCloudflareOriginCACertificateRead tm client d)))
     = requested_validity d \<and>
   (fst (snd (resourceCloudflareOriginCACertificateRead tm client d)))
     \<lparr>Id' := Id' d, certificate := certificate d, expires_on := expires_on d,
      hostnames := hostnames d, request_type := request_type d\<rparr> = d"
  by (simp add: resourceCloudflareOriginCACertificateRead_def Let_def split: sum.splits)

subsection \<open>Delete\<close>

text \<open>
  C8. Delete issues exactly one request, the revocation of the stored certificate ID; when
  the revocation succeeds it clears the ID of the resource and returns no error, and when the
  revocation fails it returns the error that wraps the message and leaves the data as it is.
\<close>

theorem Delete_revokes:
  "fst (resourceCloudflareOriginCACertificateDelete client d)
     = [PostRevokeOriginCertificate (Id' d)] \<and>
   (\<forall>revoked. RevokeOriginCertificate client (Id' d) = Inr revoked \<longrightarrow>
      snd (resourceCloudflareOriginCACertificateDelete client d) = (d\<lparr>Id' := []\<rparr>, None)) \<and>
   (\<forall>err. RevokeOriginCertificate client (Id' d) = Inl err \<longrightarrow>
      snd (resourceCloudflareOriginCACertificateDelete client d)
        = (d, Some (ErrorRevokingOriginCACertificate err)))"
  by (simp add: resourceCloudflareOriginCACertificateDelete_def Let_def split: sum.splits)

theorem Delete_revokes_witness:
  "RevokeOriginCertificate sample_client (Id' (sample_data ''live'')) = Inr ''live'' \<and>
   resourceCloudflareOriginCACertificateDelete sample_client (sample_data ''live'')
     = ([PostRevokeOriginCertificate ''live''], sample_data [], None) \<and>
   RevokeOriginCertificate sample_client (Id' (sample_data ''other''))
     = Inl ''HTTP status 500: internal error'' \<and>
   resourceCloudflareOriginCACertificateDelete sample_client (sample_data ''other'')
     = ([PostRevokeOriginCertificate ''other''], sample_data ''other'',
        Some (ErrorRevokingOriginCACertificate ''HTTP status 500: internal error''))"
proof -
  have l: "RevokeOriginCertificate sample_client (Id' (sample_data ''live'')) = Inr ''live''"
    by (simp add: sample_client_def sample_data_def)
  have o: "RevokeOriginCertificate sample_client (Id' (sample_data ''other''))
     = Inl ''HTTP status 500: internal error''"
    by (simp add: sample_client_def sample_data_def)
  have vals: "Id' (sample_data ''live'') = ''live''" "Id' (sample_data ''other'') = ''other''"
    "(sample_data ''live'')\<lparr>Id' := []\<rparr> = sample_data []"
    by (simp_all add: sample_data_def)
  show ?thesis
    using l o
      Delete_revokes [of sample_client "sample_data ''live''"]
      Delete_revokes [of sample_client "sample_data ''other''"]
    by (simp add: vals prod_eq_iff)
qed

subsection \<open>CSR validation\<close>

text \<open>
  C5. \<^verbatim>\<open>validateCSR\<close> returns a non-empty list of errors when the input holds no PEM block
  and when the bytes of its PEM block do not parse as a certificate signing request; it
  returns the empty list of errors when the block parses as a request.
\<close>

theorem validateCSR_verdict:
  "(fst (pem_Decode v) = None \<longrightarrow>
      snd (validateCSR pem_Decode parse v k) = [InvalidPEMData k] \<and>
      snd (validateCSR pem_Decode parse v k) \<noteq> []) \<and>
   (\<forall>block err. fst (pem_Decode v) = Some block \<and> parse (Bytes block) = Inl err \<longrightarrow>
      snd (validateCSR pem_Decode parse v k) = [CSRParseError k err] \<and>
      snd (validateCSR pem_Decode parse v k) \<noteq> []) \<and>
   (\<forall>block req. fst (pem_Decode v) = Some block \<and> parse (Bytes block) = Inr req \<longrightarrow>
      snd (validateCSR pem_Decode parse v k) = [])"
  by (simp add: validateCSR_def)

theorem validateCSR_verdict_witness:
  "fst (sample_pem_Decode ''not PEM at all'') = None \<and>
   snd (validateCSR sample_pem_Decode sample_ParseCertificateRequest ''not PEM at all'' ''csr'')
     = [InvalidPEMData ''csr''] \<and>
   fst (sample_pem_Decode ''<certificate>'')
     = Some \<lparr>Type = ''CERTIFICATE'', Headers = [], Bytes = ''certificate DER''\<rparr> \<and>
   sample_ParseCertificateRequest ''certificate DER'' = Inl ''asn1: structure error'' \<and>
   snd (validateCSR sample_pem_Decode sample_ParseCertificateRequest ''<certificate>'' ''csr'')
     = [CSRParseError ''csr'' ''asn1: structure error''] \<and>
   fst (sample_pem_Decode ''<request>'')
     = Some \<lparr>Type = ''CERTIFICATE REQUEST'', Headers = [], Bytes = ''request DER''\<rparr> \<and>
   sample_ParseCertificateRequest ''request DER'' = Inr () \<and>
   snd (validateCSR sample_pem_Decode sample_ParseCertificateRequest ''<request>'' ''csr'') = []"
proof -
  have d1: "fst (sample_pem_Decode ''not PEM at all'') = None"
    by (simp add: sample_pem_Decode_def)
  have d2: "fst (sample_pem_Decode ''<certificate>'')
     = Some \<lparr>Type = ''CERTIFICATE'', Headers = [], Bytes = ''certificate DER''\<rparr>"
    by (simp add: sample_pem_Decode_def)
  have p2: "sample_ParseCertificateRequest ''certificate DER'' = Inl ''asn1: structure error''"
    by (simp add: sample_ParseCertificateRequest_def)
  have d3: "fst (sample_pem_Decode ''<request>'')
     = Some \<lparr>Type = ''CERTIFICATE REQUEST'', Headers = [], Bytes = ''request DER''\<rparr>"
    by (simp add: sample_pem_Decode_def)
  have p3: "sample_ParseCertificateRequest ''request DER'' = Inr ()"
    by (simp add: sample_ParseCertificateRequest_def)
  show ?thesis
    using d1 d2 p2 d3 p3
      validateCSR_verdict [of sample_pem_Decode "''not PEM at all''"
        sample_ParseCertificateRequest "''csr''"]
      validateCSR_verdict [of sample_pem_Decode "''<certificate>''"
        sample_ParseCertificateRequest "''csr''"]
      validateCSR_verdict [of sample_pem_Decode "''<request>''"
        sample_ParseCertificateRequest "''csr''"]
    by simp
qed

text \<open>
  C10. \<^verbatim>\<open>validateCSR\<close> looks at the first PEM block only: it never returns a warning; when
  the first block parses as a certificate signing request the validation succeeds whatever
  input follows the block; and two inputs with the same first block get the same verdict.
\<close>

theorem validateCSR_first_block_only:
  "fst (validateCSR pem_Decode parse v k) = [] \<and>
   (\<forall>block rest req. pem_Decode v = (Some block, rest) \<and> parse (Bytes block) = Inr req \<longrightarrow>
      validateCSR pem_Decode parse v k = ([], [])) \<and>
   (\<forall>v'. fst (pem_Decode v') = fst (pem_Decode v) \<longrightarrow>
      validateCSR pem_Decode parse v' k = validateCSR pem_Decode parse v k)"
  by (simp add: validateCSR_def split: option.splits sum.splits)

theorem validateCSR_first_block_only_witness:
  "sample_pem_Decode ''<request> and more''
     = (Some \<lparr>Type = ''CERTIFICATE REQUEST'', Headers = [], Bytes = ''request DER''\<rparr>,
        '' and more'') \<and>
   sample_ParseCertificateRequest ''request DER'' = Inr () \<and>
   fst (sample_pem_Decode ''<request>'') = fst (sample_pem_Decode ''<request> and more'') \<and>
   validateCSR sample_pem_Decode sample_ParseCertificateRequest ''<request> and more'' ''csr''
     = ([], []) \<and>
   validateCSR sample_pem_Decode sample_ParseCertificateRequest ''<request>'' ''csr''
     = validateCSR sample_pem_Decode sample_ParseCertificateRequest ''<request> and more'' ''csr''"
proof -
  have d: "sample_pem_Decode ''<request> and more''
     = (Some \<lparr>Type = ''CERTIFICATE REQUEST'', Headers = [], Bytes = ''request DER''\<rparr>,
        '' and more'')"
    by (simp add: sample_pem_Decode_def)
  have p: "sample_ParseCertificateRequest ''request DER'' = Inr ()"
    by (simp add: sample_ParseCertificateRequest_def)
  have e: "fst (sample_pem_Decode ''<request>'') = fst (sample_pem_Decode ''<request> and more'')"
    by (simp add: sample_pem_Decode_def)
  show ?thesis
    using d p e
      validateCSR_first_block_only [of sample_pem_Decode sample_ParseCertificateRequest
        "''<request> and more''" "''csr''"]
    by simp
qed

section \<open>Properties of the state migration\<close>

subsection \<open>The migration step by step\<close>

text \<open>
  The migration reads every attribute but \<open>id\<close> and writes \<open>id\<close> alone, so a change of the
  \<open>id\<close> changes neither the target domain nor the candidates. Once the version is the legacy
  one, the \<open>id\<close> is short and both calls succeed, the outcome is decided by the candidates.
\<close>

lemma target_domain_id_upd: "target_domain (s(''id'' \<mapsto> x)) = target_domain s"
  by (simp add: target_domain_def split: option.splits)

lemma candidates_id_upd: "candidates (s(''id'' \<mapsto> x)) records = candidates s records"
proof -
  have "name_type_match (s(''id'' \<mapsto> x)) = name_type_match s"
    by (rule ext) (simp add: name_type_match_def)
  moreover have "ttl_match (s(''id'' \<mapsto> x)) = ttl_match s"
    by (rule ext) (simp add: ttl_match_def)
  moreover have "proxied_match (s(''id'' \<mapsto> x)) = proxied_match s"
    by (rule ext) (simp add: proxied_match_def)
  moreover have "priority_match (s(''id'' \<mapsto> x)) = priority_match s"
    by (rule ext) (simp add: priority_match_def)
  ultimately show ?thesis
    by (simp add: candidates_def)
qed

lemma migrate_matching_stage:
  assumes "v = legacy_schema_version" and "\<not> long_form_id (state_id s)"
    and "ZoneIDByName client (target_domain s) = Inr (Some zone)"
    and "DNSRecords client zone = Inr records"
  shows "resourceCloudflareRecordMigrateState client v s =
           ([GetZoneIDByName (target_domain s), GetDNSRecords zone],
            case candidates s records of
              [r] \<Rightarrow> Inr (s(''id'' \<mapsto> r_id r))
            | _ \<Rightarrow> Inl AmbiguousOrMissingRecord)"
  using assms
  by (simp add: resourceCloudflareRecordMigrateState_def Let_def split: list.splits)

lemma migrate_success_cases:
  assumes "snd (resourceCloudflareRecordMigrateState client v s) = Inr s'"
  shows "s' = s \<or>
         (v = legacy_schema_version \<and> (\<exists>zone records r.
            ZoneIDByName client (target_domain s) = Inr (Some zone) \<and>
            DNSRecords client zone = Inr records \<and>
            candidates s records = [r] \<and> s' = s(''id'' \<mapsto> r_id r)))"
  using assms
  by (auto simp: resourceCloudflareRecordMigrateState_def Let_def
      split: if_splits sum.splits option.splits list.splits)

lemma migrate_again:
  assumes "v = legacy_schema_version"
    and "ZoneIDByName client (target_domain s) = Inr (Some zone)"
    and "DNSRecords client zone = Inr records"
    and "candidates s records = [r]"
  shows "snd (resourceCloudflareRecordMigrateState client v (s(''id'' \<mapsto> r_id r)))
           = Inr (s(''id'' \<mapsto> r_id r))"
proof (cases "long_form_id (state_id (s(''id'' \<mapsto> r_id r)))")
  case True
  then show ?thesis
    by (simp add: resourceCloudflareRecordMigrateState_def)
next
  case False
  have "resourceCloudflareRecordMigrateState client v (s(''id'' \<mapsto> r_id r)) =
          ([GetZoneIDByName (target_domain (s(''id'' \<mapsto> r_id r))), GetDNSRecords zone],
           case candidates (s(''id'' \<mapsto> r_id r)) records of
             [r'] \<Rightarrow> Inr ((s(''id'' \<mapsto> r_id r))(''id'' \<mapsto> r_id r'))
           | _ \<Rightarrow> Inl AmbiguousOrMissingRecord)"
    using assms(1) False assms(2,3)
    by (intro migrate_matching_stage) (simp_all add: target_domain_id_upd)
  then show ?thesis
    using assms(4) by (simp add: candidates_id_upd)
qed

subsection \<open>The test fixture, evaluated\<close>

lemmas match_defs =
  candidates_def name_type_match_def ttl_match_def proxied_match_def priority_match_def
  int_of_attr_def bool_of_attr_def is_digit_def

lemma mock_zone: "ZoneIDByName mockCloudflareEnv ''hashicorptest.com'' = Inr (Some ''1234567890'')"
  by (simp add: mockCloudflareEnv_def zoneResponse_def)

lemma mock_records: "DNSRecords mockCloudflareEnv ''1234567890'' = Inr dnsResponse"
  by (simp add: mockCloudflareEnv_def)

lemma legacy_0: "0 = legacy_schema_version"
  by (simp add: legacy_schema_version_def)

lemma case_ttl_120_stage:
  "\<not> long_form_id (state_id case_ttl_120)"
  "target_domain case_ttl_120 = ''hashicorptest.com''"
  "candidates case_ttl_120 dnsResponse = [dnsResponse ! 0]"
  "r_id (dnsResponse ! 0) = ''7778f8766e583af8de0abfcd76c5dAAA''"
  by (simp_all add: long_form_id_def state_id_def target_domain_def case_ttl_120_def
      dnsResponse_def match_defs)

lemma case_ttl_121_stage:
  "\<not> long_form_id (state_id case_ttl_121)"
  "target_domain case_ttl_121 = ''hashicorptest.com''"
  "candidates case_ttl_121 dnsResponse = [dnsResponse ! 1]"
  "r_id (dnsResponse ! 1) = ''5558f8766e583af8de0abfcd76c5dBBB''"
  by (simp_all add: long_form_id_def state_id_def target_domain_def case_ttl_121_def
      dnsResponse_def match_defs)

lemma case_ttl_121_no_ttl_stage:
  "\<not> long_form_id (state_id (case_ttl_121(''ttl'' := None)))"
  "target_domain (case_ttl_121(''ttl'' := None)) = ''hashicorptest.com''"
  "candidates (case_ttl_121(''ttl'' := None)) dnsResponse = [dnsResponse ! 0, dnsResponse ! 1]"
  by (simp_all add: long_form_id_def state_id_def target_domain_def case_ttl_121_def
      dnsResponse_def match_defs)

lemma case_proxied_stage:
  "\<not> long_form_id (state_id case_proxied)"
  "target_domain case_proxied = ''hashicorptest.com''"
  "filter (name_type_match case_proxied) dnsResponse = [dnsResponse ! 3, dnsResponse ! 4]"
  "filter (ttl_match case_proxied) (filter (name_type_match case_proxied) dnsResponse)
     = [dnsResponse ! 3, dnsResponse ! 4]"
  "case_proxied ''proxied'' = Some ''true''"
  "priority_match case_proxied (dnsResponse ! 4)"
  by (simp_all add: long_form_id_def state_id_def target_domain_def case_proxied_def
      dnsResponse_def match_defs)

lemma case_proxied_other_ttl_stage:
  "filter (name_type_match case_proxied) (dnsResponse @ [other_ttl])
     = [dnsResponse ! 3, dnsResponse ! 4, other_ttl]"
  "filter (ttl_match case_proxied)
       (filter (name_type_match case_proxied) (dnsResponse @ [other_ttl]))
     = [dnsResponse ! 3, dnsResponse ! 4]"
  "r_proxied other_ttl = True" "r_ttl other_ttl = 300" "r_ttl (dnsResponse ! 4) = 1"
  by (simp_all add: case_proxied_def dnsResponse_def other_ttl_def match_defs)

lemma case_not_proxied_stage:
  "\<not> long_form_id (state_id case_not_proxied)"
  "target_domain case_not_proxied = ''hashicorptest.com''"
  "filter (name_type_match case_not_proxied) dnsResponse = [dnsResponse ! 3, dnsResponse ! 4]"
  "filter (ttl_match case_not_proxied) (filter (name_type_match case_not_proxied) dnsResponse)
     = [dnsResponse ! 3, dnsResponse ! 4]"
  "case_not_proxied ''proxied'' = Some ''false''"
  "priority_match case_not_proxied (dnsResponse ! 3)"
  by (simp_all add: long_form_id_def state_id_def target_domain_def case_not_proxied_def
      dnsResponse_def match_defs)

lemma case_proxied_respelled_stage:
  "\<not> long_form_id (state_id (case_proxied(''proxied'' \<mapsto> ''T'', ''ttl'' \<mapsto> ''+01'')))"
  "target_domain (case_proxied(''proxied'' \<mapsto> ''T'', ''ttl'' \<mapsto> ''+01'')) = ''hashicorptest.com''"
  "filter (ttl_match (case_proxied(''proxied'' \<mapsto> ''T'', ''ttl'' \<mapsto> ''+01'')))
       (filter (name_type_match (case_proxied(''proxied'' \<mapsto> ''T'', ''ttl'' \<mapsto> ''+01'')))
          dnsResponse)
     = [dnsResponse ! 3, dnsResponse ! 4]"
  "(case_proxied(''proxied'' \<mapsto> ''T'', ''ttl'' \<mapsto> ''+01'')) ''proxied'' = Some ''T''"
  "priority_match (case_proxied(''proxied'' \<mapsto> ''T'', ''ttl'' \<mapsto> ''+01'')) (dnsResponse ! 4)"
  by (simp_all add: long_form_id_def state_id_def target_domain_def case_proxied_def
      dnsResponse_def match_defs)

lemma mock_other_ttl:
  "ZoneIDByName mockCloudflareEnv_other_ttl ''hashicorptest.com'' = Inr (Some ''1234567890'')"
  "DNSRecords mockCloudflareEnv_other_ttl ''1234567890'' = Inr (dnsResponse @ [other_ttl])"
  by (simp_all add: mockCloudflareEnv_other_ttl_def zoneResponse_def)

lemma proxied_records:
  "r_proxied (dnsResponse ! 3) = False" "r_proxied (dnsResponse ! 4) = True"
  "r_id (dnsResponse ! 3) = ''222ffe3f93a31231ad6b0c6d09185jjj''"
  "r_id (dnsResponse ! 4) = ''888ffe3f93a31231ad6b0c6d09185eee''"
  "r_name (dnsResponse ! 3) = r_name (dnsResponse ! 4)"
  "r_type (dnsResponse ! 3) = r_type (dnsResponse ! 4)"
  "r_ttl (dnsResponse ! 3) = r_ttl (dnsResponse ! 4)"
  by (simp_all add: dnsResponse_def)

lemma bool_readings:
  "bool_of_attr ''true'' = Some True" "bool_of_attr ''false'' = Some False"
  "bool_of_attr ''T'' = Some True"
  by (simp_all add: bool_of_attr_def)

lemma case_mx_priority_mismatch_stage:
  "\<not> long_form_id (state_id case_mx_priority_mismatch)"
  "target_domain case_mx_priority_mismatch = ''hashicorptest.com''"
  "case_mx_priority_mismatch ''type'' = Some ''MX''"
  "case_mx_priority_mismatch ''priority'' = Some ''10''"
  "\<forall>r \<in> set dnsResponse. name_type_match case_mx_priority_mismatch r \<longrightarrow>
     int_of_attr ''10'' \<noteq> Some (r_priority r)"
  "name_type_match case_mx_priority_mismatch (dnsResponse ! 6)"
  "ttl_match case_mx_priority_mismatch (dnsResponse ! 6)"
  "proxied_match case_mx_priority_mismatch (dnsResponse ! 6)"
  "filter (name_type_match case_mx_priority_mismatch) dnsResponse = [dnsResponse ! 6]"
  "int_of_attr ''10'' = Some 10" "r_priority (dnsResponse ! 6) = 20"
  by (simp_all add: long_form_id_def state_id_def target_domain_def case_mx_priority_mismatch_def
      dnsResponse_def match_defs)

subsection \<open>No-op and idempotence\<close>

text \<open>
  C1. The migration is a no-op, returning the snapshot unchanged and issuing no request,
  whenever the version is not the legacy one and whenever the \<open>id\<close> of the snapshot has 32 or
  more characters; and a second migration of a migrated snapshot, at the same version and
  against the same remote data, returns it unchanged.
\<close>

theorem migrate_noop_idempotent:
  "(v \<noteq> legacy_schema_version \<longrightarrow>
      resourceCloudflareRecordMigrateState client v s = ([], Inr s)) \<and>
   (long_form_id (state_id s) \<longrightarrow>
      resourceCloudflareRecordMigrateState client v s = ([], Inr s)) \<and>
   (\<forall>s'. snd (resourceCloudflareRecordMigrateState client v s) = Inr s' \<longrightarrow>
      snd (resourceCloudflareRecordMigrateState client v s') = Inr s')"
proof (intro conjI allI impI)
  fix s'
  assume run: "snd (resourceCloudflareRecordMigrateState client v s) = Inr s'"
  from migrate_success_cases [OF run]
  show "snd (resourceCloudflareRecordMigrateState client v s') = Inr s'"
  proof
    assume "s' = s"
    with run show ?thesis by simp
  next
    assume "v = legacy_schema_version \<and> (\<exists>zone records r.
            ZoneIDByName client (target_domain s) = Inr (Some zone) \<and>
            DNSRecords client zone = Inr records \<and>
            candidates s records = [r] \<and> s' = s(''id'' \<mapsto> r_id r))"
    then show ?thesis
      using migrate_again by blast
  qed
qed (simp_all add: resourceCloudflareRecordMigrateState_def)

theorem migrate_noop_idempotent_witness:
  "1 \<noteq> legacy_schema_version \<and>
   resourceCloudflareRecordMigrateState mockCloudflareEnv 1 case_ttl_120
     = ([], Inr case_ttl_120) \<and>
   long_form_id (state_id case_ttl_122_state_v0_with_v1_fields) \<and>
   resourceCloudflareRecordMigrateState mockCloudflareEnv 0 case_ttl_122_state_v0_with_v1_fields
     = ([], Inr case_ttl_122_state_v0_with_v1_fields) \<and>
   snd (resourceCloudflareRecordMigrateState mockCloudflareEnv 0 case_ttl_120)
     = Inr (case_ttl_120(''id'' \<mapsto> ''7778f8766e583af8de0abfcd76c5dAAA'')) \<and>
   snd (resourceCloudflareRecordMigrateState mockCloudflareEnv 0
          (case_ttl_120(''id'' \<mapsto> ''7778f8766e583af8de0abfcd76c5dAAA'')))
     = Inr (case_ttl_120(''id'' \<mapsto> ''7778f8766e583af8de0abfcd76c5dAAA''))"
proof -
  have v: "1 \<noteq> legacy_schema_version"
    by (simp add: legacy_schema_version_def)
  have l: "long_form_id (state_id case_ttl_122_state_v0_with_v1_fields)"
    by (simp add: long_form_id_def state_id_def case_ttl_122_state_v0_with_v1_fields_def)
  have z: "ZoneIDByName mockCloudflareEnv (target_domain case_ttl_120)
             = Inr (Some ''1234567890'')"
    by (simp add: case_ttl_120_stage mock_zone)
  have run: "snd (resourceCloudflareRecordMigrateState mockCloudflareEnv 0 case_ttl_120)
     = Inr (case_ttl_120(''id'' \<mapsto> ''7778f8766e583af8de0abfcd76c5dAAA''))"
    by (simp add: migrate_matching_stage [OF legacy_0 case_ttl_120_stage(1) z mock_records]
        case_ttl_120_stage)
  show ?thesis
    using v l run
      migrate_noop_idempotent [of 1 mockCloudflareEnv case_ttl_120]
      migrate_noop_idempotent [of 0 mockCloudflareEnv case_ttl_122_state_v0_with_v1_fields]
      migrate_noop_idempotent [of 0 mockCloudflareEnv case_ttl_120]
    by simp
qed

subsection \<open>Exactly one candidate\<close>

text \<open>
  C2. For a legacy snapshot that reaches the matching (its \<open>id\<close> is short, its zone resolves
  and the list call succeeds): when exactly one record remains after the name and type filter
  and the discriminators, the migration returns the snapshot with that record's id as its
  \<open>id\<close>; when no record or more than one remains, it fails with the
  ambiguous-or-missing-record error.
\<close>

theorem migrate_unique_candidate:
  assumes "v = legacy_schema_version" and "\<not> long_form_id (state_id s)"
    and "ZoneIDByName client (target_domain s) = Inr (Some zone)"
    and "DNSRecords client zone = Inr records"
  shows "(\<forall>r. candidates s records = [r] \<longrightarrow>
            resourceCloudflareRecordMigrateState client v s =
              ([GetZoneIDByName (target_domain s), GetDNSRecords zone],
               Inr (s(''id'' \<mapsto> r_id r))) \<and>
            state_id (s(''id'' \<mapsto> r_id r)) = r_id r) \<and>
         (length (candidates s records) \<noteq> 1 \<longrightarrow>
            resourceCloudflareRecordMigrateState client v s =
              ([GetZoneIDByName (target_domain s), GetDNSRecords zone],
               Inl AmbiguousOrMissingRecord))"
  by (simp add: migrate_matching_stage [OF assms] state_id_def split: list.splits)

theorem migrate_unique_candidate_witness:
  "0 = legacy_schema_version \<and>
   \<not> long_form_id (state_id case_ttl_121) \<and>
   ZoneIDByName mockCloudflareEnv (target_domain case_ttl_121) = Inr (Some ''1234567890'') \<and>
   DNSRecords mockCloudflareEnv ''1234567890'' = Inr dnsResponse \<and>
   candidates case_ttl_121 dnsResponse = [dnsResponse ! 1] \<and>
   resourceCloudflareRecordMigrateState mockCloudflareEnv 0 case_ttl_121 =
     ([GetZoneIDByName ''hashicorptest.com'', GetDNSRecords ''1234567890''],
      Inr (case_ttl_121(''id'' \<mapsto> ''5558f8766e583af8de0abfcd76c5dBBB''))) \<and>
   \<not> long_form_id (state_id (case_ttl_121(''ttl'' := None))) \<and>
   ZoneIDByName mockCloudflareEnv (target_domain (case_ttl_121(''ttl'' := None)))
     = Inr (Some ''1234567890'') \<and>
   length (candidates (case_ttl_121(''ttl'' := None)) dnsResponse) \<noteq> 1 \<and>
   resourceCloudflareRecordMigrateState mockCloudflareEnv 0 (case_ttl_121(''ttl'' := None)) =
     ([GetZoneIDByName ''hashicorptest.com'', GetDNSRecords ''1234567890''],
      Inl AmbiguousOrMissingRecord)"
proof -
  have z1: "ZoneIDByName mockCloudflareEnv (target_domain case_ttl_121)
              = Inr (Some ''1234567890'')"
    by (simp add: case_ttl_121_stage mock_zone)
  have z2: "ZoneIDByName mockCloudflareEnv (target_domain (case_ttl_121(''ttl'' := None)))
              = Inr (Some ''1234567890'')"
    by (simp add: case_ttl_121_no_ttl_stage mock_zone)
  have n: "length (candidates (case_ttl_121(''ttl'' := None)) dnsResponse) \<noteq> 1"
    by (simp add: case_ttl_121_no_ttl_stage)
  show ?thesis
    using legacy_0 z1 z2 n mock_records case_ttl_121_stage case_ttl_121_no_ttl_stage(1,2)
      migrate_unique_candidate [OF legacy_0 case_ttl_121_stage(1) z1 mock_records]
      migrate_unique_candidate [OF legacy_0 case_ttl_121_no_ttl_stage(1) z2 mock_records]
    by simp
qed

subsection \<open>Selection by \<open>proxied\<close>\<close>

text \<open>
  C3. When the records that match the snapshot in name and type and pass the \<open>ttl\<close>
  discriminator are two (whatever else the zone lists, records of the same name and type
  with another \<open>ttl\<close> included) and the two differ in \<open>proxied\<close>, the migration selects the
  one whose \<open>proxied\<close> is the boolean the snapshot's attribute reads as, provided that record
  also passes the \<open>priority\<close> discriminator, which comes last and concerns \<open>MX\<close> records only.
  The comparisons are on the integer and the boolean read from the attributes, whatever
  their spelling.
\<close>

theorem migrate_selects_by_proxied:
  assumes "v = legacy_schema_version" and "\<not> long_form_id (state_id s)"
    and "ZoneIDByName client (target_domain s) = Inr (Some zone)"
    and "DNSRecords client zone = Inr records"
    and "filter (ttl_match s) (filter (name_type_match s) records) = [r1, r2] \<or>
         filter (ttl_match s) (filter (name_type_match s) records) = [r2, r1]"
    and "s ''proxied'' = Some p" and "bool_of_attr p = Some b"
    and "r_proxied r1 = b" and "r_proxied r2 \<noteq> b"
    and "priority_match s r1"
  shows "resourceCloudflareRecordMigrateState client v s =
           ([GetZoneIDByName (target_domain s), GetDNSRecords zone],
            Inr (s(''id'' \<mapsto> r_id r1)))"
proof -
  have "proxied_match s r1" and "\<not> proxied_match s r2"
    using assms(6-9) by (simp_all add: proxied_match_def)
  with assms(5,10) have "candidates s records = [r1]"
    unfolding candidates_def by (elim disjE) simp_all
  then show ?thesis
    by (simp add: migrate_matching_stage [OF assms(1-4)])
qed

theorem migrate_selects_by_proxied_witness:
  "r_name (dnsResponse ! 3) = r_name (dnsResponse ! 4) \<and>
   r_type (dnsResponse ! 3) = r_type (dnsResponse ! 4) \<and>
   r_ttl (dnsResponse ! 3) = r_ttl (dnsResponse ! 4) \<and>
   r_proxied (dnsResponse ! 3) = False \<and> r_proxied (dnsResponse ! 4) = True \<and>
   filter (ttl_match case_proxied) (filter (name_type_match case_proxied) dnsResponse)
     = [dnsResponse ! 3, dnsResponse ! 4] \<and>
   case_proxied ''proxied'' = Some ''true'' \<and> bool_of_attr ''true'' = Some True \<and>
   resourceCloudflareRecordMigrateState mockCloudflareEnv 0 case_proxied =
     ([GetZoneIDByName ''hashicorptest.com'', GetDNSRecords ''1234567890''],
      Inr (case_proxied(''id'' \<mapsto> ''888ffe3f93a31231ad6b0c6d09185eee''))) \<and>
   filter (ttl_match case_not_proxied) (filter (name_type_match case_not_proxied) dnsResponse)
     = [dnsResponse ! 3, dnsResponse ! 4] \<and>
   case_not_proxied ''proxied'' = Some ''false'' \<and> bool_of_attr ''false'' = Some False \<and>
   resourceCloudflareRecordMigrateState mockCloudflareEnv 0 case_not_proxied =
     ([GetZoneIDByName ''hashicorptest.com'', GetDNSRecords ''1234567890''],
      Inr (case_not_proxied(''id'' \<mapsto> ''222ffe3f93a31231ad6b0c6d09185jjj''))) \<and>
   bool_of_attr ''T'' = Some True \<and> int_of_attr ''+01'' = Some 1 \<and>
   resourceCloudflareRecordMigrateState mockCloudflareEnv 0
       (case_proxied(''proxied'' \<mapsto> ''T'', ''ttl'' \<mapsto> ''+01'')) =
     ([GetZoneIDByName ''hashicorptest.com'', GetDNSRecords ''1234567890''],
      Inr ((case_proxied(''proxied'' \<mapsto> ''T'', ''ttl'' \<mapsto> ''+01''))
             (''id'' \<mapsto> ''888ffe3f93a31231ad6b0c6d09185eee''))) \<and>
   filter (name_type_match case_proxied) (dnsResponse @ [other_ttl])
     = [dnsResponse ! 3, dnsResponse ! 4, other_ttl] \<and>
   r_proxied other_ttl = True \<and> r_ttl other_ttl = 300 \<and> r_ttl (dnsResponse ! 4) = 1 \<and>
   filter (ttl_match case_proxied)
       (filter (name_type_match case_proxied) (dnsResponse @ [other_ttl]))
     = [dnsResponse ! 3, dnsResponse ! 4] \<and>
   resourceCloudflareRecordMigrateState mockCloudflareEnv_other_ttl 0 case_proxied =
     ([GetZoneIDByName ''hashicorptest.com'', GetDNSRecords ''1234567890''],
      Inr (case_proxied(''id'' \<mapsto> ''888ffe3f93a31231ad6b0c6d09185eee'')))"
proof -
  have z1: "ZoneIDByName mockCloudflareEnv (target_domain case_proxied)
              = Inr (Some ''1234567890'')"
    by (simp add: case_proxied_stage mock_zone)
  have z2: "ZoneIDByName mockCloudflareEnv (target_domain case_not_proxied)
              = Inr (Some ''1234567890'')"
    by (simp add: case_not_proxied_stage mock_zone)
  have z3: "ZoneIDByName mockCloudflareEnv
              (target_domain (case_proxied(''proxied'' \<mapsto> ''T'', ''ttl'' \<mapsto> ''+01'')))
              = Inr (Some ''1234567890'')"
    by (simp add: case_proxied_respelled_stage mock_zone)
  have z4: "ZoneIDByName mockCloudflareEnv_other_ttl (target_domain case_proxied)
              = Inr (Some ''1234567890'')"
    by (simp add: case_proxied_stage mock_other_ttl)
  have i: "int_of_attr ''+01'' = Some 1"
    by (simp add: int_of_attr_def is_digit_def)
  have f1: "filter (ttl_match case_proxied) (filter (name_type_match case_proxied) dnsResponse)
              = [dnsResponse ! 4, dnsResponse ! 3]
          \<or> filter (ttl_match case_proxied) (filter (name_type_match case_proxied) dnsResponse)
              = [dnsResponse ! 3, dnsResponse ! 4]"
    by (simp only: case_proxied_stage(4) simp_thms)
  have f2: "filter (ttl_match case_not_proxied)
                (filter (name_type_match case_not_proxied) dnsResponse)
              = [dnsResponse ! 3, dnsResponse ! 4]
          \<or> filter (ttl_match case_not_proxied)
                (filter (name_type_match case_not_proxied) dnsResponse)
              = [dnsResponse ! 4, dnsResponse ! 3]"
    by (simp only: case_not_proxied_stage(4) simp_thms)
  have f3: "filter (ttl_match (case_proxied(''proxied'' \<mapsto> ''T'', ''ttl'' \<mapsto> ''+01'')))
                (filter (name_type_match (case_proxied(''proxied'' \<mapsto> ''T'', ''ttl'' \<mapsto> ''+01'')))
                   dnsResponse)
              = [dnsResponse ! 4, dnsResponse ! 3]
          \<or> filter (ttl_match (case_proxied(''proxied'' \<mapsto> ''T'', ''ttl'' \<mapsto> ''+01'')))
                (filter (name_type_match (case_proxied(''proxied'' \<mapsto> ''T'', ''ttl'' \<mapsto> ''+01'')))
                   dnsResponse)
              = [dnsResponse ! 3, dnsResponse ! 4]"
    by (simp only: case_proxied_respelled_stage(3) simp_thms)
  have f4: "filter (ttl_match case_proxied)
                (filter (name_type_match case_proxied) (dnsResponse @ [other_ttl]))
              = [dnsResponse ! 4, dnsResponse ! 3]
          \<or> filter (ttl_match case_proxied)
                (filter (name_type_match case_proxied) (dnsResponse @ [other_ttl]))
              = [dnsResponse ! 3, dnsResponse ! 4]"
    by (simp only: case_proxied_other_ttl_stage(2) simp_thms)
  have p1: "r_proxied (dnsResponse ! 4) = True" "r_proxied (dnsResponse ! 3) \<noteq> True"
    and p2: "r_proxied (dnsResponse ! 3) = False" "r_proxied (dnsResponse ! 4) \<noteq> False"
    by (simp_all add: proxied_records)
  show ?thesis
    using i proxied_records bool_readings
      case_proxied_stage(2,4,5) case_not_proxied_stage(2,4,5) case_proxied_respelled_stage(2)
      case_proxied_other_ttl_stage
      migrate_selects_by_proxied [OF legacy_0 case_proxied_stage(1) z1 mock_records f1
        case_proxied_stage(5) bool_readings(1) p1 case_proxied_stage(6)]
      migrate_selects_by_proxied [OF legacy_0 case_not_proxied_stage(1) z2 mock_records f2
        case_not_proxied_stage(5) bool_readings(2) p2 case_not_proxied_stage(6)]
      migrate_selects_by_proxied [OF legacy_0 case_proxied_respelled_stage(1) z3 mock_records f3
        case_proxied_respelled_stage(4) bool_readings(3) p1 case_proxied_respelled_stage(5)]
      migrate_selects_by_proxied [OF legacy_0 case_proxied_stage(1) z4 mock_other_ttl(2) f4
        case_proxied_stage(5) bool_readings(1) p1 case_proxied_stage(6)]
    by simp
qed

subsection \<open>Priority of \<open>MX\<close> records\<close>

text \<open>
  C4. For a legacy snapshot of type \<open>MX\<close> that reaches the matching and whose \<open>priority\<close>
  reads as the priority of no record matching it in name and type, the migration fails with
  the ambiguous-or-missing-record error, even when a record matches in name, type and \<open>ttl\<close>.
\<close>

theorem migrate_mx_priority_mismatch:
  assumes "v = legacy_schema_version" and "\<not> long_form_id (state_id s)"
    and "ZoneIDByName client (target_domain s) = Inr (Some zone)"
    and "DNSRecords client zone = Inr records"
    and "s ''type'' = Some ''MX''" and "s ''priority'' = Some p"
    and "\<forall>r \<in> set records. name_type_match s r \<longrightarrow> int_of_attr p \<noteq> Some (r_priority r)"
  shows "resourceCloudflareRecordMigrateState client v s =
           ([GetZoneIDByName (target_domain s), GetDNSRecords zone],
            Inl AmbiguousOrMissingRecord)"
proof -
  have "\<not> priority_match s r" if "r \<in> set records" and "name_type_match s r" for r
  proof -
    from that(2) assms(5) have "r_type r = ''MX''"
      by (simp add: name_type_match_def)
    with assms(6,7) that show ?thesis
      by (simp add: priority_match_def)
  qed
  then have "candidates s records = []"
    by (auto simp: candidates_def filter_empty_conv)
  then show ?thesis
    by (simp add: migrate_matching_stage [OF assms(1-4)])
qed

theorem migrate_mx_priority_mismatch_witness:
  "0 = legacy_schema_version \<and>
   \<not> long_form_id (state_id case_mx_priority_mismatch) \<and>
   ZoneIDByName mockCloudflareEnv (target_domain case_mx_priority_mismatch)
     = Inr (Some ''1234567890'') \<and>
   DNSRecords mockCloudflareEnv ''1234567890'' = Inr dnsResponse \<and>
   case_mx_priority_mismatch ''type'' = Some ''MX'' \<and>
   case_mx_priority_mismatch ''priority'' = Some ''10'' \<and>
   filter (name_type_match case_mx_priority_mismatch) dnsResponse = [dnsResponse ! 6] \<and>
   int_of_attr ''10'' = Some 10 \<and> r_priority (dnsResponse ! 6) = 20 \<and>
   name_type_match case_mx_priority_mismatch (dnsResponse ! 6) \<and>
   ttl_match case_mx_priority_mismatch (dnsResponse ! 6) \<and>
   proxied_match case_mx_priority_mismatch (dnsResponse ! 6) \<and>
   resourceCloudflareRecordMigrateState mockCloudflareEnv 0 case_mx_priority_mismatch =
     ([GetZoneIDByName ''hashicorptest.com'', GetDNSRecords ''1234567890''],
      Inl AmbiguousOrMissingRecord)"
proof -
  have z: "ZoneIDByName mockCloudflareEnv (target_domain case_mx_priority_mismatch)
             = Inr (Some ''1234567890'')"
    by (simp add: case_mx_priority_mismatch_stage mock_zone)
  show ?thesis
    using legacy_0 z mock_records case_mx_priority_mismatch_stage
      migrate_mx_priority_mismatch [OF legacy_0 case_mx_priority_mismatch_stage(1) z
        mock_records case_mx_priority_mismatch_stage(3,4,5)]
    by simp
qed

subsection \<open>The test table\<close>

text \<open>
  On the seven entries of the test table the migration gives what the test expects: the
  \<^verbatim>\<open>Expected\<close> ID, or an error for the entry marked \<^verbatim>\<open>ShouldFail\<close>.
\<close>

lemma TestCloudflareRecordMigrateState:
  "migrated_ID case_ttl_120 = Inr ''7778f8766e583af8de0abfcd76c5dAAA''"
  "migrated_ID case_ttl_121 = Inr ''5558f8766e583af8de0abfcd76c5dBBB''"
  "migrated_ID case_mx_priority = Inr ''12342092cbc4c391be33ce548713bba3''"
  "migrated_ID case_mx_priority_mismatch = Inl AmbiguousOrMissingRecord"
  "migrated_ID case_proxied = Inr ''888ffe3f93a31231ad6b0c6d09185eee''"
  "migrated_ID case_not_proxied = Inr ''222ffe3f93a31231ad6b0c6d09185jjj''"
  "migrated_ID case_ttl_122_state_v0_with_v1_fields = Inr ''12345678901234567890123456789012''"
  by (simp_all add: migrated_ID_def resourceCloudflareRecordMigrateState_def Let_def
      legacy_schema_version_def long_form_id_def state_id_def target_domain_def
      mockCloudflareEnv_def zoneResponse_def dnsResponse_def match_defs
      case_ttl_120_def case_ttl_121_def case_mx_priority_def case_mx_priority_mismatch_def
      case_proxied_def case_not_proxied_def case_ttl_122_state_v0_with_v1_fields_def)

end
